theory Spec2Isabelle
  imports Main
begin

section \<open>The portfolio advisor handler of \<^verbatim>\<open>lambda_function.py\<close>\<close>

text \<open>
  The handler receives one dialog request (intent name, slots, invocation source,
  session attributes) and answers with one dialog response. Nothing is stored between
  requests. Dictionaries whose keys the code indexes unconditionally at top level are
  records; the slots dictionary, whose keys may be missing, is a partial map from slot
  names to nullable strings. Exceptions are values of the type \<open>error\<close>.
\<close>

subsection \<open>Integer conversion of the language runtime\<close>

text \<open>
  \<^verbatim>\<open>int(s)\<close> on a string, base ten, for ASCII text: blanks are stripped at both ends,
  one sign may lead, then decimal digits follow, with single underscores allowed
  between two digits. Anything else raises \<^verbatim>\<open>ValueError\<close>, which is the value \<open>None\<close>
  here. Integers are unbounded.
\<close>

definition is_space :: "char \<Rightarrow> bool" where
  "is_space c = (c \<in> set [CHR '' '', CHR 0x09, CHR 0x0A, CHR 0x0B, CHR 0x0C, CHR 0x0D])"

definition digit_val :: "char \<Rightarrow> int option" where
  "digit_val c = map_of
     [(CHR ''0'', 0), (CHR ''1'', 1), (CHR ''2'', 2), (CHR ''3'', 3), (CHR ''4'', 4),
      (CHR ''5'', 5), (CHR ''6'', 6), (CHR ''7'', 7), (CHR ''8'', 8), (CHR ''9'', 9)] c"

text \<open>
  \<open>py_digits u acc cs\<close> reads the rest of a digit string. The flag \<open>u\<close> says that the
  character just read was an underscore (or that nothing was read yet), so that a digit
  must come next.
\<close>

fun py_digits :: "bool \<Rightarrow> int \<Rightarrow> string \<Rightarrow> int option" where
  "py_digits u acc [] = (if u then None else Some acc)"
| "py_digits u acc (c # cs) =
     (case digit_val c of
        Some d \<Rightarrow> py_digits False (10 * acc + d) cs
      | None \<Rightarrow> if c = CHR ''_'' \<and> \<not> u then py_digits True acc cs else None)"

definition strip :: "string \<Rightarrow> string" where
  "strip s = rev (dropWhile is_space (rev (dropWhile is_space s)))"

definition py_int :: "string \<Rightarrow> int option" where
  "py_int s =
     (case strip s of
        [] \<Rightarrow> None
      | c # cs \<Rightarrow>
          if c = CHR ''-'' then map_option uminus (py_digits True 0 cs)
          else if c = CHR ''+'' then py_digits True 0 cs
          else py_digits True 0 (c # cs))"

subsection \<open>Numbers after conversion\<close>

text \<open>
  A converted value is either an integer or the float \<^verbatim>\<open>nan\<close>. Comparing with
  \<^verbatim>\<open>nan\<close> is false whichever way round.
\<close>

datatype pynum = IntV int | NaN

fun num_lt :: "pynum \<Rightarrow> pynum \<Rightarrow> bool" where
  "num_lt (IntV a) (IntV b) = (a < b)"
| "num_lt _ _ = False"

fun num_gt :: "pynum \<Rightarrow> pynum \<Rightarrow> bool" where
  "num_gt (IntV a) (IntV b) = (a > b)"
| "num_gt _ _ = False"

text \<open>The argument of \<^verbatim>\<open>parse_int\<close>: the code calls it on slot strings and on integer constants.\<close>

datatype pyval = PStr string | PInt int

fun parse_int :: "pyval \<Rightarrow> pynum" where
  "parse_int (PInt i) = IntV i"
| "parse_int (PStr s) = (case py_int s of Some i \<Rightarrow> IntV i | None \<Rightarrow> NaN)"

subsection \<open>Data\<close>

record message =
  contentType :: string
  content :: string

text \<open>
  The validation result is a dictionary; its key \<^verbatim>\<open>message\<close> is absent when no message
  content is given, which is the value \<open>None\<close> of the field.
\<close>

record validation_result =
  isValid :: bool
  violatedSlot :: "string option"
  message :: "message option"

type_synonym slots = "string \<rightharpoonup> string option"

record current_intent =
  name :: string
  slots :: slots

record 'sa intent_request =
  currentIntent :: current_intent
  invocationSource :: string
  sessionAttributes :: 'sa

datatype dialog_action =
    ElicitSlot string slots "string option" message
  | Delegate slots
  | Close string message

record 'sa response =
  resp_sessionAttributes :: 'sa
  dialogAction :: dialog_action

datatype error = KeyError string | Exception string

subsection \<open>Helper functions\<close>

definition build_validation_result :: "bool \<Rightarrow> string option \<Rightarrow> string option \<Rightarrow> validation_result" where
  "build_validation_result is_valid violated_slot message_content =
     (case message_content of
        None \<Rightarrow> \<lparr>isValid = is_valid, violatedSlot = violated_slot, message = None\<rparr>
      | Some c \<Rightarrow>
          \<lparr>isValid = is_valid, violatedSlot = violated_slot,
           message = Some \<lparr>contentType = ''PlainText'', content = c\<rparr>\<rparr>)"

definition get_slots :: "'sa intent_request \<Rightarrow> slots" where
  "get_slots intent_request = slots (currentIntent intent_request)"

definition elicit_slot :: "'sa \<Rightarrow> string \<Rightarrow> slots \<Rightarrow> string option \<Rightarrow> message \<Rightarrow> 'sa response" where
  "elicit_slot session_attributes intent_name sl slot_to_elicit msg =
     \<lparr>resp_sessionAttributes = session_attributes,
      dialogAction = ElicitSlot intent_name sl slot_to_elicit msg\<rparr>"

definition delegate :: "'sa \<Rightarrow> slots \<Rightarrow> 'sa response" where
  "delegate session_attributes sl =
     \<lparr>resp_sessionAttributes = session_attributes, dialogAction = Delegate sl\<rparr>"

definition close :: "'sa \<Rightarrow> string \<Rightarrow> message \<Rightarrow> 'sa response" where
  "close session_attributes fulfillment_state msg =
     \<lparr>resp_sessionAttributes = session_attributes,
      dialogAction = Close fulfillment_state msg\<rparr>"

subsection \<open>Validation\<close>

definition age_message :: string where
  "age_message = ''You entered an age that does not fall within the age range for this utility. Please enter an age between 1 and 65.''"

definition amount_message :: string where
  "amount_message = ''You must enter an investment amount greater than or equal to $5000.''"

definition risk_message :: string where
  "risk_message = ''You did not enter a valid risk level for this utility. Please enter either none or low or medium or high.''"

text \<open>The three checks of \<^verbatim>\<open>validate_data\<close>, each returning at its first violation.\<close>

definition validate_data ::
  "string option \<Rightarrow> string option \<Rightarrow> string option \<Rightarrow> 'sa intent_request \<Rightarrow> validation_result" where
  "validate_data age investmentAmount riskLevel intent_request =
     (if (case age of
            None \<Rightarrow> False
          | Some s \<Rightarrow>
              (let a = parse_int (PStr s)
               in num_lt a (parse_int (PInt 0)) \<or> num_gt a (parse_int (PInt 65))))
      then build_validation_result False (Some ''age'') (Some age_message)
      else if (case investmentAmount of
                 None \<Rightarrow> False
               | Some s \<Rightarrow> (let m = parse_int (PStr s) in num_lt m (IntV 5000)))
      then build_validation_result False (Some ''investmentAmount'') (Some amount_message)
      else if (case riskLevel of
                 None \<Rightarrow> False
               | Some s \<Rightarrow> s \<noteq> ''none'' \<and> s \<noteq> ''low'' \<and> s \<noteq> ''medium'' \<and> s \<noteq> ''high'')
      then build_validation_result False (Some ''riskLevel'') (Some risk_message)
      else build_validation_result True None None)"

subsection \<open>Advice\<close>

definition get_advice :: "string option \<Rightarrow> string" where
  "get_advice risklevel =
     (if risklevel = Some ''none'' then ''100% bonds (AGG), 0% equities (SPY)''
      else if risklevel = Some ''low'' then ''60% bonds (ACG), 40% equities (SPY)''
      else if risklevel = Some ''medium'' then ''40% bonds (ACG), 60% equities (SPY)''
      else ''20% bonds (ACG), 80% equities (SPY)'')"

subsection \<open>Intent handler, dispatcher and entry point\<close>

definition lookup :: "slots \<Rightarrow> string \<Rightarrow> error + string option" where
  "lookup sl k = (case sl k of None \<Rightarrow> Inl (KeyError k) | Some v \<Rightarrow> Inr v)"

text \<open>
  The assignment \<^verbatim>\<open>slots[k] = None\<close>. The key is a slot name in every result the
  validator builds; a key that is not a string leaves the string keys as they are.
\<close>

definition clean_slot :: "slots \<Rightarrow> string option \<Rightarrow> slots" where
  "clean_slot sl k = (case k of Some n \<Rightarrow> sl(n \<mapsto> None) | None \<Rightarrow> sl)"

definition advice_content :: "string \<Rightarrow> string" where
  "advice_content invest_advice =
     ''Based on your risk level, it is recommended that your portfolio should be ''
     @ invest_advice @ [CHR 0x0A] @ replicate 12 (CHR '' '')"

text \<open>
  The handler reads the four slots, then branches on the invocation source. On a failed
  validation it overwrites the violated slot in the request's own slots dictionary and
  returns that dictionary in the response; the model returns the response, whose slots
  are the updated ones.
\<close>

definition recommend_portfolio :: "'sa intent_request \<Rightarrow> error + 'sa response" where
  "recommend_portfolio intent_request =
     (case lookup (get_slots intent_request) ''firstname'' of
        Inl e \<Rightarrow> Inl e
      | Inr firstname \<Rightarrow>
     (case lookup (get_slots intent_request) ''age'' of
        Inl e \<Rightarrow> Inl e
      | Inr age \<Rightarrow>
     (case lookup (get_slots intent_request) ''investmentAmount'' of
        Inl e \<Rightarrow> Inl e
      | Inr investmentAmount \<Rightarrow>
     (case lookup (get_slots intent_request) ''riskLevel'' of
        Inl e \<Rightarrow> Inl e
      | Inr riskLevel \<Rightarrow>
     (let source = invocationSource intent_request in
      if source = ''DialogCodeHook'' then
        (let sl = get_slots intent_request;
             validation_result = validate_data age investmentAmount riskLevel intent_request
         in if \<not> isValid validation_result then
              (let sl' = clean_slot sl (violatedSlot validation_result) in
               case message validation_result of
                 None \<Rightarrow> Inl (KeyError ''message'')
               | Some msg \<Rightarrow>
                   Inr (elicit_slot (sessionAttributes intent_request)
                          (name (currentIntent intent_request)) sl'
                          (violatedSlot validation_result) msg))
            else Inr (delegate (sessionAttributes intent_request) sl))
      else
        (let invest_advice = get_advice riskLevel in
         Inr (close (sessionAttributes intent_request) ''Fulfilled''
                \<lparr>contentType = ''PlainText'', content = advice_content invest_advice\<rparr>)))))))"

definition dispatch :: "'sa intent_request \<Rightarrow> error + 'sa response" where
  "dispatch intent_request =
     (let intent_name = name (currentIntent intent_request) in
      if intent_name = ''recommendPortfolio'' then recommend_portfolio intent_request
      else Inl (Exception (''Intent with name '' @ intent_name @ '' not supported'')))"

definition lambda_handler :: "'sa intent_request \<Rightarrow> 'ctx \<Rightarrow> error + 'sa response" where
  "lambda_handler event context = dispatch event"

subsection \<open>Sample requests\<close>

text \<open>
  A request for the one registered intent with the given invocation source and slots,
  and a request under another intent name. They serve as concrete inputs below.
\<close>

abbreviation sample_request ::
  "string \<Rightarrow> (string \<times> string option) list \<Rightarrow> (string \<times> string) list intent_request" where
  "sample_request src kvs \<equiv>
     \<lparr>currentIntent = \<lparr>name = ''recommendPortfolio'', slots = map_of kvs\<rparr>,
      invocationSource = src, sessionAttributes = [(''user'', ''u1'')]\<rparr>"

abbreviation other_request :: "string \<Rightarrow> (string \<times> string) list intent_request" where
  "other_request n \<equiv>
     \<lparr>currentIntent = \<lparr>name = n, slots = map_of []\<rparr>,
      invocationSource = ''DialogCodeHook'', sessionAttributes = [(''user'', ''u1'')]\<rparr>"

section \<open>Properties\<close>

subsection \<open>Shared facts\<close>

lemmas py_int_eval = py_int_def strip_def is_space_def digit_val_def

lemmas messages = age_message_def amount_message_def risk_message_def

lemmas validate_eval = validate_data_def build_validation_result_def py_int_eval

lemmas handler_defs = recommend_portfolio_def get_slots_def lookup_def clean_slot_def
  elicit_slot_def delegate_def close_def advice_content_def

text \<open>A slot string that does not convert is treated by the validator like an absent one.\<close>

lemma validate_data_unparsable_age:
  "py_int s = None \<Longrightarrow> validate_data (Some s) m k req = validate_data None m k req"
  by (simp add: validate_data_def)

lemma validate_data_unparsable_amount:
  "py_int s = None \<Longrightarrow> validate_data a (Some s) k req = validate_data a None k req"
  by (simp add: validate_data_def)

text \<open>Every failing result of the validator names a slot and carries a plain text message.\<close>

lemma validate_data_invalid:
  "\<not> isValid (validate_data a m k req) \<Longrightarrow>
     \<exists>n c. violatedSlot (validate_data a m k req) = Some n \<and>
           message (validate_data a m k req) = Some \<lparr>contentType = ''PlainText'', content = c\<rparr>"
  by (simp add: validate_data_def build_validation_result_def split: if_splits)

subsection \<open>Unparsable numbers\<close>

text \<open>
  C1 says that an age or an investment amount whose string does not parse as an integer
  becomes the not-a-number value, for which every comparison is false, and that the
  validator then reports that slot's violation. The first half holds and defeats the
  second: the string \<open>abc\<close> converts to \<open>NaN\<close>, each of the three range comparisons
  is false for \<open>NaN\<close>, so neither range check fires, and the validator returns the
  success result for \<open>abc\<close> as an age and as an investment amount. A dialog request
  with the age \<open>abc\<close> is answered with Delegate, the slot left as it came.
\<close>

theorem unparsable_slot_passes_validation:
  "parse_int (PStr ''abc'') = NaN \<and>
   \<not> num_lt NaN (IntV 0) \<and> \<not> num_gt NaN (IntV 65) \<and> \<not> num_lt NaN (IntV 5000) \<and>
   validate_data (Some ''abc'') None None req =
     \<lparr>isValid = True, violatedSlot = None, message = None\<rparr> \<and>
   validate_data None (Some ''abc'') None req =
     \<lparr>isValid = True, violatedSlot = None, message = None\<rparr> \<and>
   recommend_portfolio (sample_request ''DialogCodeHook''
      [(''firstname'', Some ''Ann''), (''age'', Some ''abc''),
       (''investmentAmount'', None), (''riskLevel'', None)]) =
     Inr \<lparr>resp_sessionAttributes = [(''user'', ''u1'')],
          dialogAction = Delegate (map_of
            [(''firstname'', Some ''Ann''), (''age'', Some ''abc''),
             (''investmentAmount'', None), (''riskLevel'', None)])\<rparr>"
  by (simp add: handler_defs validate_eval)

subsection \<open>The advice table\<close>

text \<open>
  C2: the advice is the fixed text for \<open>none\<close>, for \<open>low\<close> and for \<open>medium\<close>, and the
  text of \<open>high\<close> for every other input, so that any unrecognised risk level (and a null
  one) gets the advice of \<open>high\<close>.
\<close>

theorem get_advice_table:
  "get_advice (Some ''none'') = ''100% bonds (AGG), 0% equities (SPY)'' \<and>
   get_advice (Some ''low'') = ''60% bonds (ACG), 40% equities (SPY)'' \<and>
   get_advice (Some ''medium'') = ''40% bonds (ACG), 60% equities (SPY)'' \<and>
   get_advice (Some ''high'') = ''20% bonds (ACG), 80% equities (SPY)'' \<and>
   (r \<noteq> Some ''none'' \<and> r \<noteq> Some ''low'' \<and> r \<noteq> Some ''medium'' \<longrightarrow>
      get_advice r = ''20% bonds (ACG), 80% equities (SPY)'' \<and>
      get_advice r = get_advice (Some ''high''))"
  by (simp add: get_advice_def)

theorem get_advice_table_witness:
  "get_advice (Some ''anything-else'') = ''20% bonds (ACG), 80% equities (SPY)'' \<and>
   get_advice (Some ''anything-else'') = get_advice (Some ''high'') \<and>
   get_advice (Some ''HIGH'') = get_advice (Some ''high'') \<and>
   get_advice None = get_advice (Some ''high'')"
  using get_advice_table [of "Some ''anything-else''"] get_advice_table [of "Some ''HIGH''"]
    get_advice_table [of None]
  by simp

subsection \<open>The three checks of the validator\<close>

text \<open>
  C5: for an age string that converts to the integer \<open>a\<close>, the validator accepts the age
  exactly when \<open>0 \<le> a \<le> 65\<close>: it then goes on as if the age raised no objection, never
  names the slot \<open>age\<close>, and succeeds when the other two slots are absent. For \<open>a < 0\<close>
  or \<open>a > 65\<close> it returns the violation of slot \<open>age\<close> with the fixed message, whose
  text speaks of an age between 1 and 65.
\<close>

theorem validate_data_age:
  "py_int s = Some a \<Longrightarrow>
     (0 \<le> a \<and> a \<le> 65 \<longrightarrow>
        validate_data (Some s) m k req = validate_data None m k req \<and>
        violatedSlot (validate_data (Some s) m k req) \<noteq> Some ''age'' \<and>
        validate_data (Some s) None None req =
          \<lparr>isValid = True, violatedSlot = None, message = None\<rparr>) \<and>
     (a < 0 \<or> a > 65 \<longrightarrow>
        validate_data (Some s) m k req =
          \<lparr>isValid = False, violatedSlot = Some ''age'',
           message = Some \<lparr>contentType = ''PlainText'',
             content = ''You entered an age that does not fall within the age range for this utility. Please enter an age between 1 and 65.''\<rparr>\<rparr>)"
  by (auto simp add: validate_data_def build_validation_result_def messages split: option.splits)

theorem validate_data_age_witness:
  "py_int ''0'' = Some 0 \<and> py_int ''65'' = Some 65 \<and> py_int ''66'' = Some 66 \<and>
   py_int ''-1'' = Some (- 1) \<and>
   validate_data (Some ''0'') None None (other_request ''x'') =
     \<lparr>isValid = True, violatedSlot = None, message = None\<rparr> \<and>
   validate_data (Some ''65'') None None (other_request ''x'') =
     \<lparr>isValid = True, violatedSlot = None, message = None\<rparr> \<and>
   violatedSlot (validate_data (Some ''66'') (Some ''100'') (Some ''low'') (other_request ''x''))
     = Some ''age'' \<and>
   violatedSlot (validate_data (Some ''-1'') None None (other_request ''x'')) = Some ''age''"
proof -
  have p0: "py_int ''0'' = Some 0" and p65: "py_int ''65'' = Some 65"
    and p66: "py_int ''66'' = Some 66" and pm1: "py_int ''-1'' = Some (- 1)"
    by (simp_all add: py_int_eval)
  show ?thesis
    using p0 p65 p66 pm1
      validate_data_age [OF p0, of None None "other_request ''x''"]
      validate_data_age [OF p65, of None None "other_request ''x''"]
      validate_data_age [OF p66, of "Some ''100''" "Some ''low''" "other_request ''x''"]
      validate_data_age [OF pm1, of None None "other_request ''x''"]
    by (simp add: validate_data_def build_validation_result_def)
qed

text \<open>
  C6 as stated covers every age, but the age check comes first: with the age \<open>70\<close> an
  investment amount of \<open>100\<close> is never looked at, and the violation returned is that of
  slot \<open>age\<close>.
\<close>

theorem validate_data_amount_counterexample:
  "py_int ''100'' = Some 100 \<and>
   violatedSlot (validate_data (Some ''70'') (Some ''100'') None (other_request ''x''))
     = Some ''age''"
  by (simp add: validate_data_def build_validation_result_def py_int_eval)

text \<open>
  C6, amended: when the age is absent or passes its check, an investment amount string
  that converts to the integer \<open>m\<close> is accepted exactly when \<open>m \<ge> 5000\<close> (validation goes
  on to the risk level, and succeeds when that is absent), and for \<open>m < 5000\<close> the
  validator returns the violation of slot \<open>investmentAmount\<close> with its fixed message.
\<close>

theorem validate_data_amount:
  "py_int s = Some m \<Longrightarrow> isValid (validate_data a None None req) \<Longrightarrow>
     (m \<ge> 5000 \<longrightarrow>
        validate_data a (Some s) k req = validate_data None None k req \<and>
        violatedSlot (validate_data a (Some s) k req) \<noteq> Some ''investmentAmount'' \<and>
        validate_data a (Some s) None req =
          \<lparr>isValid = True, violatedSlot = None, message = None\<rparr>) \<and>
     (m < 5000 \<longrightarrow>
        validate_data a (Some s) k req =
          \<lparr>isValid = False, violatedSlot = Some ''investmentAmount'',
           message = Some \<lparr>contentType = ''PlainText'',
             content = ''You must enter an investment amount greater than or equal to $5000.''\<rparr>\<rparr>)"
  by (auto simp add: validate_data_def build_validation_result_def messages
      split: option.splits if_splits)

theorem validate_data_amount_witness:
  "py_int ''5000'' = Some 5000 \<and> py_int ''4999'' = Some 4999 \<and>
   isValid (validate_data (Some ''30'') None None (other_request ''x'')) \<and>
   validate_data (Some ''30'') (Some ''5000'') None (other_request ''x'') =
     \<lparr>isValid = True, violatedSlot = None, message = None\<rparr> \<and>
   violatedSlot (validate_data (Some ''30'') (Some ''4999'') (Some ''low'') (other_request ''x''))
     = Some ''investmentAmount''"
proof -
  have p1: "py_int ''5000'' = Some 5000" and p2: "py_int ''4999'' = Some 4999"
    by (simp_all add: py_int_eval)
  have v: "isValid (validate_data (Some ''30'') None None (other_request ''x''))"
    by (simp add: validate_data_def build_validation_result_def py_int_eval)
  show ?thesis
    using p1 p2 v
      validate_data_amount [OF p1 v, of None]
      validate_data_amount [OF p2 v, of "Some ''low''"]
    by (simp add: validate_data_def build_validation_result_def)
qed

text \<open>
  C7 as stated covers every age and amount, but both are checked before the risk level:
  with the investment amount \<open>100\<close> the unknown risk level \<open>extreme\<close> is never looked
  at, and the violation returned is that of slot \<open>investmentAmount\<close>.
\<close>

theorem validate_data_risk_counterexample:
  "violatedSlot (validate_data None (Some ''100'') (Some ''extreme'') (other_request ''x''))
     = Some ''investmentAmount''"
  by (simp add: validate_data_def build_validation_result_def py_int_eval)

text \<open>
  C7, amended: when the age and the investment amount raise no violation, a risk level
  string is accepted exactly when it is one of \<open>none\<close>, \<open>low\<close>, \<open>medium\<close>, \<open>high\<close>,
  letter for letter, and the result is then the success result; any other string gets the
  violation of slot \<open>riskLevel\<close> with its fixed message.
\<close>

theorem validate_data_risk:
  "isValid (validate_data a m None req) \<Longrightarrow>
     (k \<in> {''none'', ''low'', ''medium'', ''high''} \<longrightarrow>
        validate_data a m (Some k) req =
          \<lparr>isValid = True, violatedSlot = None, message = None\<rparr>) \<and>
     (k \<notin> {''none'', ''low'', ''medium'', ''high''} \<longrightarrow>
        validate_data a m (Some k) req =
          \<lparr>isValid = False, violatedSlot = Some ''riskLevel'',
           message = Some \<lparr>contentType = ''PlainText'',
             content = ''You did not enter a valid risk level for this utility. Please enter either none or low or medium or high.''\<rparr>\<rparr>)"
  by (auto simp add: validate_data_def build_validation_result_def messages
      split: option.splits if_splits)

theorem validate_data_risk_witness:
  "isValid (validate_data (Some ''30'') (Some ''10000'') None (other_request ''x'')) \<and>
   validate_data (Some ''30'') (Some ''10000'') (Some ''medium'') (other_request ''x'') =
     \<lparr>isValid = True, violatedSlot = None, message = None\<rparr> \<and>
   violatedSlot (validate_data (Some ''30'') (Some ''10000'') (Some ''Medium'') (other_request ''x''))
     = Some ''riskLevel'' \<and>
   violatedSlot (validate_data (Some ''30'') (Some ''10000'') (Some '''') (other_request ''x''))
     = Some ''riskLevel''"
proof -
  have v: "isValid (validate_data (Some ''30'') (Some ''10000'') None (other_request ''x''))"
    by (simp add: validate_data_def build_validation_result_def py_int_eval)
  show ?thesis
    using v validate_data_risk [OF v, of "''medium''"] validate_data_risk [OF v, of "''Medium''"]
      validate_data_risk [OF v, of "''''"]
    by (simp add: validate_data_def build_validation_result_def)
qed

subsection \<open>Order of the checks\<close>

text \<open>
  C8: the checks run in the order age, investment amount, risk level. A null slot is
  never the violated one. A violation of the age alone decides the result whatever the
  other two slots hold; failing that, a violation of the amount alone decides it whatever
  the risk level holds; failing that, the risk level decides. When none of the three
  fails, the result is the success result: valid, with no violated slot and no message.
  The result is always one of four values, so it carries at most one violation.
\<close>

theorem validate_data_order:
  "validate_data None None None req = \<lparr>isValid = True, violatedSlot = None, message = None\<rparr> \<and>
   violatedSlot (validate_data None m k req) \<noteq> Some ''age'' \<and>
   violatedSlot (validate_data a None k req) \<noteq> Some ''investmentAmount'' \<and>
   violatedSlot (validate_data a m None req) \<noteq> Some ''riskLevel'' \<and>
   (\<not> isValid (validate_data a None None req) \<longrightarrow>
      validate_data a m k req = validate_data a None None req \<and>
      violatedSlot (validate_data a m k req) = Some ''age'') \<and>
   (isValid (validate_data a None None req) \<and> \<not> isValid (validate_data None m None req) \<longrightarrow>
      validate_data a m k req = validate_data None m None req \<and>
      violatedSlot (validate_data a m k req) = Some ''investmentAmount'') \<and>
   (isValid (validate_data a None None req) \<and> isValid (validate_data None m None req) \<and>
    \<not> isValid (validate_data None None k req) \<longrightarrow>
      validate_data a m k req = validate_data None None k req \<and>
      violatedSlot (validate_data a m k req) = Some ''riskLevel'') \<and>
   (isValid (validate_data a None None req) \<and> isValid (validate_data None m None req) \<and>
    isValid (validate_data None None k req) \<longrightarrow>
      validate_data a m k req = \<lparr>isValid = True, violatedSlot = None, message = None\<rparr>) \<and>
   validate_data a m k req \<in>
     {\<lparr>isValid = True, violatedSlot = None, message = None\<rparr>,
      \<lparr>isValid = False, violatedSlot = Some ''age'',
       message = Some \<lparr>contentType = ''PlainText'', content = age_message\<rparr>\<rparr>,
      \<lparr>isValid = False, violatedSlot = Some ''investmentAmount'',
       message = Some \<lparr>contentType = ''PlainText'', content = amount_message\<rparr>\<rparr>,
      \<lparr>isValid = False, violatedSlot = Some ''riskLevel'',
       message = Some \<lparr>contentType = ''PlainText'', content = risk_message\<rparr>\<rparr>}"
  by (simp add: validate_data_def build_validation_result_def split: option.splits)

theorem validate_data_order_witness:
  "\<not> isValid (validate_data (Some ''70'') None None (other_request ''x'')) \<and>
   violatedSlot (validate_data (Some ''70'') (Some ''100'') (Some ''extreme'') (other_request ''x''))
     = Some ''age'' \<and>
   isValid (validate_data (Some ''30'') None None (other_request ''x'')) \<and>
   \<not> isValid (validate_data None (Some ''100'') None (other_request ''x'')) \<and>
   violatedSlot (validate_data (Some ''30'') (Some ''100'') (Some ''extreme'') (other_request ''x''))
     = Some ''investmentAmount'' \<and>
   isValid (validate_data None (Some ''10000'') None (other_request ''x'')) \<and>
   \<not> isValid (validate_data None None (Some ''extreme'') (other_request ''x'')) \<and>
   violatedSlot (validate_data (Some ''30'') (Some ''10000'') (Some ''extreme'') (other_request ''x''))
     = Some ''riskLevel'' \<and>
   isValid (validate_data None None (Some ''low'') (other_request ''x'')) \<and>
   validate_data (Some ''30'') (Some ''10000'') (Some ''low'') (other_request ''x'') =
     \<lparr>isValid = True, violatedSlot = None, message = None\<rparr>"
  using
    validate_data_order [of "other_request ''x''" "Some ''100''" "Some ''extreme''" "Some ''70''"]
    validate_data_order [of "other_request ''x''" "Some ''100''" "Some ''extreme''" "Some ''30''"]
    validate_data_order [of "other_request ''x''" "Some ''10000''" "Some ''extreme''" "Some ''30''"]
    validate_data_order [of "other_request ''x''" "Some ''10000''" "Some ''low''" "Some ''30''"]
  by (simp add: validate_eval)

subsection \<open>The intent handler\<close>

text \<open>
  C3 as stated covers every request, but the handler indexes the four slots first: a
  fulfilment request whose slots lack the key \<open>firstname\<close> gets no Close response; the
  lookup fails.
\<close>

theorem recommend_portfolio_close_counterexample:
  "invocationSource (sample_request ''FulfillmentCodeHook''
      [(''age'', Some ''30''), (''investmentAmount'', Some ''10000''), (''riskLevel'', Some ''low'')])
     \<noteq> ''DialogCodeHook'' \<and>
   recommend_portfolio (sample_request ''FulfillmentCodeHook''
      [(''age'', Some ''30''), (''investmentAmount'', Some ''10000''), (''riskLevel'', Some ''low'')])
     = Inl (KeyError ''firstname'')"
  by (simp add: handler_defs)

text \<open>
  C3, amended: for a request whose slots hold the keys \<open>firstname\<close>, \<open>age\<close>,
  \<open>investmentAmount\<close> and \<open>riskLevel\<close>, the handler dispatches on the invocation source.
  With \<open>DialogCodeHook\<close> and slots that validate, it returns Delegate with the request's
  slots and session attributes unchanged. With any other invocation source it returns
  Close with the state \<open>Fulfilled\<close> and a plain text message that embeds the advice for
  the risk level slot as it stands, valid or not.
\<close>

theorem recommend_portfolio_phases:
  "slots (currentIntent r) ''firstname'' = Some f \<Longrightarrow>
   slots (currentIntent r) ''age'' = Some a \<Longrightarrow>
   slots (currentIntent r) ''investmentAmount'' = Some m \<Longrightarrow>
   slots (currentIntent r) ''riskLevel'' = Some k \<Longrightarrow>
     (invocationSource r = ''DialogCodeHook'' \<and> isValid (validate_data a m k r) \<longrightarrow>
        recommend_portfolio r =
          Inr \<lparr>resp_sessionAttributes = sessionAttributes r,
               dialogAction = Delegate (slots (currentIntent r))\<rparr>) \<and>
     (invocationSource r \<noteq> ''DialogCodeHook'' \<longrightarrow>
        recommend_portfolio r =
          Inr \<lparr>resp_sessionAttributes = sessionAttributes r,
               dialogAction = Close ''Fulfilled''
                 \<lparr>contentType = ''PlainText'',
                  content =
                    ''Based on your risk level, it is recommended that your portfolio should be ''
                    @ get_advice k @ [CHR 0x0A] @ replicate 12 (CHR '' '')\<rparr>\<rparr>)"
  by (simp add: handler_defs)

theorem recommend_portfolio_phases_witness:
  "isValid (validate_data (Some ''30'') (Some ''10000'') (Some ''medium'')
      (sample_request ''DialogCodeHook''
        [(''firstname'', Some ''Ann''), (''age'', Some ''30''),
         (''investmentAmount'', Some ''10000''), (''riskLevel'', Some ''medium'')])) \<and>
   recommend_portfolio (sample_request ''DialogCodeHook''
      [(''firstname'', Some ''Ann''), (''age'', Some ''30''),
       (''investmentAmount'', Some ''10000''), (''riskLevel'', Some ''medium'')]) =
     Inr \<lparr>resp_sessionAttributes = [(''user'', ''u1'')],
          dialogAction = Delegate (map_of
            [(''firstname'', Some ''Ann''), (''age'', Some ''30''),
             (''investmentAmount'', Some ''10000''), (''riskLevel'', Some ''medium'')])\<rparr> \<and>
   recommend_portfolio (sample_request ''FulfillmentCodeHook''
      [(''firstname'', Some ''Ann''), (''age'', Some ''30''),
       (''investmentAmount'', Some ''10000''), (''riskLevel'', Some ''low'')]) =
     Inr \<lparr>resp_sessionAttributes = [(''user'', ''u1'')],
          dialogAction = Close ''Fulfilled''
            \<lparr>contentType = ''PlainText'',
             content =
               ''Based on your risk level, it is recommended that your portfolio should be ''
               @ ''60% bonds (ACG), 40% equities (SPY)'' @ [CHR 0x0A] @ replicate 12 (CHR '' '')\<rparr>\<rparr> \<and>
   recommend_portfolio (sample_request ''FulfillmentCodeHook''
      [(''firstname'', None), (''age'', Some ''abc''),
       (''investmentAmount'', None), (''riskLevel'', Some ''extreme'')]) =
     Inr \<lparr>resp_sessionAttributes = [(''user'', ''u1'')],
          dialogAction = Close ''Fulfilled''
            \<lparr>contentType = ''PlainText'',
             content =
               ''Based on your risk level, it is recommended that your portfolio should be ''
               @ ''20% bonds (ACG), 80% equities (SPY)'' @ [CHR 0x0A] @ replicate 12 (CHR '' '')\<rparr>\<rparr>"
  using
    recommend_portfolio_phases [of "sample_request ''DialogCodeHook''
        [(''firstname'', Some ''Ann''), (''age'', Some ''30''),
         (''investmentAmount'', Some ''10000''), (''riskLevel'', Some ''medium'')]"
      "Some ''Ann''" "Some ''30''" "Some ''10000''" "Some ''medium''"]
    recommend_portfolio_phases [of "sample_request ''FulfillmentCodeHook''
        [(''firstname'', Some ''Ann''), (''age'', Some ''30''),
         (''investmentAmount'', Some ''10000''), (''riskLevel'', Some ''low'')]"
      "Some ''Ann''" "Some ''30''" "Some ''10000''" "Some ''low''"]
    recommend_portfolio_phases [of "sample_request ''FulfillmentCodeHook''
        [(''firstname'', None), (''age'', Some ''abc''),
         (''investmentAmount'', None), (''riskLevel'', Some ''extreme'')]"
      None "Some ''abc''" None "Some ''extreme''"]
  by (simp add: validate_eval get_advice_def)

text \<open>
  C4 as stated covers every dialog request whose slots fail validation, but the handler
  indexes the four slots first: a request with the age \<open>70\<close> whose slots lack the key
  \<open>firstname\<close> gets no ElicitSlot response; the lookup fails.
\<close>

theorem recommend_portfolio_elicit_counterexample:
  "\<not> isValid (validate_data (Some ''70'') None None
      (sample_request ''DialogCodeHook''
        [(''age'', Some ''70''), (''investmentAmount'', None), (''riskLevel'', None)])) \<and>
   recommend_portfolio (sample_request ''DialogCodeHook''
      [(''age'', Some ''70''), (''investmentAmount'', None), (''riskLevel'', None)])
     = Inl (KeyError ''firstname'')"
  by (simp add: handler_defs validate_eval)

text \<open>
  C4, amended: for a request whose slots hold the keys \<open>firstname\<close>, \<open>age\<close>,
  \<open>investmentAmount\<close> and \<open>riskLevel\<close>, with the invocation source \<open>DialogCodeHook\<close> and
  slots that fail validation, the handler returns ElicitSlot for the request's intent
  name: the slot to elicit is the validator's violated slot, the message is the
  validator's message, the session attributes are the request's, the violated slot is
  null in the returned slots and every other slot is as in the request.
\<close>

theorem recommend_portfolio_elicit:
  "slots (currentIntent r) ''firstname'' = Some f \<Longrightarrow>
   slots (currentIntent r) ''age'' = Some a \<Longrightarrow>
   slots (currentIntent r) ''investmentAmount'' = Some m \<Longrightarrow>
   slots (currentIntent r) ''riskLevel'' = Some k \<Longrightarrow>
   invocationSource r = ''DialogCodeHook'' \<Longrightarrow>
   \<not> isValid (validate_data a m k r) \<Longrightarrow>
     \<exists>slot msg.
       violatedSlot (validate_data a m k r) = Some slot \<and>
       message (validate_data a m k r) = Some msg \<and>
       recommend_portfolio r =
         Inr \<lparr>resp_sessionAttributes = sessionAttributes r,
              dialogAction =
                ElicitSlot (name (currentIntent r)) ((slots (currentIntent r))(slot \<mapsto> None))
                  (Some slot) msg\<rparr> \<and>
       ((slots (currentIntent r))(slot \<mapsto> None)) slot = Some None \<and>
       (\<forall>key. key \<noteq> slot \<longrightarrow>
          ((slots (currentIntent r))(slot \<mapsto> None)) key = slots (currentIntent r) key)"
proof -
  assume keys: "slots (currentIntent r) ''firstname'' = Some f"
    "slots (currentIntent r) ''age'' = Some a"
    "slots (currentIntent r) ''investmentAmount'' = Some m"
    "slots (currentIntent r) ''riskLevel'' = Some k"
    and src: "invocationSource r = ''DialogCodeHook''"
    and bad: "\<not> isValid (validate_data a m k r)"
  from validate_data_invalid [OF bad] obtain n c where
    vs: "violatedSlot (validate_data a m k r) = Some n" and
    ms: "message (validate_data a m k r) = Some \<lparr>contentType = ''PlainText'', content = c\<rparr>"
    by blast
  have "recommend_portfolio r =
         Inr \<lparr>resp_sessionAttributes = sessionAttributes r,
              dialogAction =
                ElicitSlot (name (currentIntent r)) ((slots (currentIntent r))(n \<mapsto> None))
                  (Some n) \<lparr>contentType = ''PlainText'', content = c\<rparr>\<rparr>"
    using keys src bad vs ms by (simp add: handler_defs)
  with vs ms show ?thesis by simp
qed

theorem recommend_portfolio_elicit_witness:
  "\<not> isValid (validate_data (Some ''70'') (Some ''10000'') (Some ''low'')
      (sample_request ''DialogCodeHook''
        [(''firstname'', Some ''Ann''), (''age'', Some ''70''),
         (''investmentAmount'', Some ''10000''), (''riskLevel'', Some ''low'')])) \<and>
   recommend_portfolio (sample_request ''DialogCodeHook''
      [(''firstname'', Some ''Ann''), (''age'', Some ''70''),
       (''investmentAmount'', Some ''10000''), (''riskLevel'', Some ''low'')]) =
     Inr \<lparr>resp_sessionAttributes = [(''user'', ''u1'')],
          dialogAction =
            ElicitSlot ''recommendPortfolio''
              (map_of [(''firstname'', Some ''Ann''), (''age'', None),
                 (''investmentAmount'', Some ''10000''), (''riskLevel'', Some ''low'')])
              (Some ''age'')
              \<lparr>contentType = ''PlainText'', content = age_message\<rparr>\<rparr>"
proof -
  let ?r = "sample_request ''DialogCodeHook''
      [(''firstname'', Some ''Ann''), (''age'', Some ''70''),
       (''investmentAmount'', Some ''10000''), (''riskLevel'', Some ''low'')]"
  have bad: "\<not> isValid (validate_data (Some ''70'') (Some ''10000'') (Some ''low'') ?r)"
    by (simp add: validate_eval)
  have "\<exists>slot msg.
       violatedSlot (validate_data (Some ''70'') (Some ''10000'') (Some ''low'') ?r) = Some slot \<and>
       message (validate_data (Some ''70'') (Some ''10000'') (Some ''low'') ?r) = Some msg \<and>
       recommend_portfolio ?r =
         Inr \<lparr>resp_sessionAttributes = sessionAttributes ?r,
              dialogAction =
                ElicitSlot (name (currentIntent ?r)) ((slots (currentIntent ?r))(slot \<mapsto> None))
                  (Some slot) msg\<rparr> \<and>
       ((slots (currentIntent ?r))(slot \<mapsto> None)) slot = Some None \<and>
       (\<forall>key. key \<noteq> slot \<longrightarrow>
          ((slots (currentIntent ?r))(slot \<mapsto> None)) key = slots (currentIntent ?r) key)"
    by (rule recommend_portfolio_elicit [where f = "Some ''Ann''"]) (simp_all add: validate_eval)
  then have "recommend_portfolio ?r =
     Inr \<lparr>resp_sessionAttributes = [(''user'', ''u1'')],
          dialogAction =
            ElicitSlot ''recommendPortfolio''
              ((map_of [(''firstname'', Some ''Ann''), (''age'', Some ''70''),
                 (''investmentAmount'', Some ''10000''), (''riskLevel'', Some ''low'')])
               (''age'' \<mapsto> None))
              (Some ''age'')
              \<lparr>contentType = ''PlainText'', content = age_message\<rparr>\<rparr>"
    by (auto simp add: validate_eval)
  moreover have "(map_of [(''firstname'', Some ''Ann''), (''age'', Some ''70''),
                 (''investmentAmount'', Some ''10000''), (''riskLevel'', Some ''low'')])
               (''age'' \<mapsto> None) =
     map_of [(''firstname'', Some ''Ann''), (''age'', None),
                 (''investmentAmount'', Some ''10000''), (''riskLevel'', Some ''low'')]"
    by (rule ext) simp
  ultimately show ?thesis using bad by simp
qed

text \<open>
  C10: the handler reads the keys \<open>firstname\<close>, \<open>age\<close>, \<open>investmentAmount\<close>,
  \<open>riskLevel\<close> in this order before it looks at the invocation source. When one of them
  is missing, the result is the key error of the first missing one, and no response.
\<close>

theorem recommend_portfolio_missing_key:
  "(slots (currentIntent r) ''firstname'' = None \<longrightarrow>
      recommend_portfolio r = Inl (KeyError ''firstname'')) \<and>
   (slots (currentIntent r) ''firstname'' \<noteq> None \<and> slots (currentIntent r) ''age'' = None \<longrightarrow>
      recommend_portfolio r = Inl (KeyError ''age'')) \<and>
   (slots (currentIntent r) ''firstname'' \<noteq> None \<and> slots (currentIntent r) ''age'' \<noteq> None \<and>
    slots (currentIntent r) ''investmentAmount'' = None \<longrightarrow>
      recommend_portfolio r = Inl (KeyError ''investmentAmount'')) \<and>
   (slots (currentIntent r) ''firstname'' \<noteq> None \<and> slots (currentIntent r) ''age'' \<noteq> None \<and>
    slots (currentIntent r) ''investmentAmount'' \<noteq> None \<and>
    slots (currentIntent r) ''riskLevel'' = None \<longrightarrow>
      recommend_portfolio r = Inl (KeyError ''riskLevel'')) \<and>
   ((\<exists>key \<in> {''firstname'', ''age'', ''investmentAmount'', ''riskLevel''}.
       slots (currentIntent r) key = None) \<longrightarrow>
      (\<exists>key. recommend_portfolio r = Inl (KeyError key)) \<and>
      (\<forall>resp. recommend_portfolio r \<noteq> Inr resp))"
  by (auto simp add: recommend_portfolio_def get_slots_def lookup_def split: option.splits)

theorem recommend_portfolio_missing_key_witness:
  "recommend_portfolio (sample_request ''DialogCodeHook''
      [(''age'', Some ''30''), (''investmentAmount'', Some ''10000''), (''riskLevel'', Some ''low'')])
     = Inl (KeyError ''firstname'') \<and>
   recommend_portfolio (sample_request ''FulfillmentCodeHook''
      [(''firstname'', Some ''Ann''), (''investmentAmount'', Some ''10000''), (''riskLevel'', Some ''low'')])
     = Inl (KeyError ''age'') \<and>
   recommend_portfolio (sample_request ''DialogCodeHook''
      [(''firstname'', Some ''Ann''), (''age'', None), (''riskLevel'', Some ''low'')])
     = Inl (KeyError ''investmentAmount'') \<and>
   recommend_portfolio (sample_request ''FulfillmentCodeHook''
      [(''firstname'', None), (''age'', None), (''investmentAmount'', None)])
     = Inl (KeyError ''riskLevel'')"
  using
    recommend_portfolio_missing_key [of "sample_request ''DialogCodeHook''
      [(''age'', Some ''30''), (''investmentAmount'', Some ''10000''), (''riskLevel'', Some ''low'')]"]
    recommend_portfolio_missing_key [of "sample_request ''FulfillmentCodeHook''
      [(''firstname'', Some ''Ann''), (''investmentAmount'', Some ''10000''), (''riskLevel'', Some ''low'')]"]
    recommend_portfolio_missing_key [of "sample_request ''DialogCodeHook''
      [(''firstname'', Some ''Ann''), (''age'', None), (''riskLevel'', Some ''low'')]"]
    recommend_portfolio_missing_key [of "sample_request ''FulfillmentCodeHook''
      [(''firstname'', None), (''age'', None), (''investmentAmount'', None)]"]
  by simp

subsection \<open>Dispatcher and entry point\<close>

text \<open>
  C9: under any intent name other than \<open>recommendPortfolio\<close> the dispatcher raises an
  exception naming the intent and returns no response; under \<open>recommendPortfolio\<close> it
  returns what the portfolio handler returns. The entry point returns what the dispatcher
  returns for the unchanged event, errors included.
\<close>

theorem dispatch_intent:
  "(name (currentIntent r) \<noteq> ''recommendPortfolio'' \<longrightarrow>
      dispatch r =
        Inl (Exception (''Intent with name '' @ name (currentIntent r) @ '' not supported'')) \<and>
      (\<forall>resp. dispatch r \<noteq> Inr resp)) \<and>
   (name (currentIntent r) = ''recommendPortfolio'' \<longrightarrow> dispatch r = recommend_portfolio r) \<and>
   lambda_handler r ctx = dispatch r"
  by (simp add: dispatch_def lambda_handler_def)

theorem dispatch_intent_witness:
  "name (currentIntent (other_request ''unknownIntent'')) \<noteq> ''recommendPortfolio'' \<and>
   dispatch (other_request ''unknownIntent'') =
     Inl (Exception ''Intent with name unknownIntent not supported'') \<and>
   lambda_handler (other_request ''unknownIntent'') () =
     Inl (Exception ''Intent with name unknownIntent not supported'') \<and>
   name (currentIntent (sample_request ''FulfillmentCodeHook'' [])) = ''recommendPortfolio'' \<and>
   dispatch (sample_request ''FulfillmentCodeHook'' []) =
     recommend_portfolio (sample_request ''FulfillmentCodeHook'' [])"
  using dispatch_intent [of "other_request ''unknownIntent''" "()"]
    dispatch_intent [of "sample_request ''FulfillmentCodeHook'' []" "()"]
  by simp

end
